theory Spec2Isabelle
  imports Main "HOL-Library.Sublist"
begin

section \<open>Python strings\<close>

text \<open>
  A Python \<open>str\<close> is a sequence of Unicode code points; \<open>len\<close>, \<open>count\<close>, \<open>in\<close> and the
  \<open>re\<close> module all work on code points. A string is therefore a list of naturals, and
  the ASCII literals of the script are written with \<open>pystr\<close>.
\<close>

type_synonym ustr = "nat list"

definition pystr :: "string \<Rightarrow> ustr" where
  "pystr s = map of_char s"

text \<open>\<open>str(n)\<close> of an integer: decimal digits, with a minus sign for a negative value.\<close>

function str_nat :: "nat \<Rightarrow> ustr" where
  "str_nat n = (if n < 10 then [48 + n] else str_nat (n div 10) @ [48 + n mod 10])"
  by pat_completeness auto
termination
  by (relation "measure (\<lambda>n. n)") auto

declare str_nat.simps [simp del]

definition str :: "int \<Rightarrow> ustr" where
  "str i = (if i < 0 then 45 # str_nat (nat (- i)) else str_nat (nat i))"

text \<open>\<open>content.split('\n')\<close>: the pieces between line feeds; never an empty list.\<close>

fun add_to_first :: "nat \<Rightarrow> ustr list \<Rightarrow> ustr list" where
  "add_to_first c [] = [[c]]"
| "add_to_first c (l # ls) = (c # l) # ls"

fun split_newline :: "ustr \<Rightarrow> ustr list" where
  "split_newline [] = [[]]"
| "split_newline (c # cs) =
     (if c = 10 then [] # split_newline cs else add_to_first c (split_newline cs))"

text \<open>\<open>sub in s\<close>: \<open>sub\<close> occurs in \<open>s\<close> as a contiguous piece.\<close>

fun contains :: "ustr \<Rightarrow> ustr \<Rightarrow> bool" where
  "contains [] sub = (sub = [])"
| "contains (c # cs) sub = (prefix sub (c # cs) \<or> contains cs sub)"

text \<open>
  Unicode whitespace, as \<open>str.strip()\<close> and the class \<open>\s\<close> of a \<open>str\<close> pattern test it:
  U+0009..U+000D, U+001C..U+0020, U+0085, U+00A0, U+1680, U+2000..U+200A, U+2028,
  U+2029, U+202F, U+205F, U+3000.
\<close>

definition is_space :: "nat \<Rightarrow> bool" where
  "is_space c \<longleftrightarrow>
     (9 \<le> c \<and> c \<le> 13) \<or> (28 \<le> c \<and> c \<le> 32) \<or> c = 133 \<or> c = 160 \<or> c = 5760 \<or>
     (8192 \<le> c \<and> c \<le> 8202) \<or> c = 8232 \<or> c = 8233 \<or> c = 8239 \<or> c = 8287 \<or> c = 12288"

definition strip :: "ustr \<Rightarrow> ustr" where
  "strip s = rev (dropWhile is_space (rev (dropWhile is_space s)))"

text \<open>
  The class \<open>\w\<close> of a \<open>str\<close> pattern: an alphanumeric code point or the underscore. On
  ASCII the alphanumerics are the digits and the letters; beyond ASCII they are given
  by the interpreter's Unicode database, which is not part of the script and is the
  parameter \<open>uni\<close> of everything that matches the pattern.
\<close>

definition is_word :: "(nat \<Rightarrow> bool) \<Rightarrow> nat \<Rightarrow> bool" where
  "is_word uni c \<longleftrightarrow>
     c = 95 \<or>
     (if c < 128 then (48 \<le> c \<and> c \<le> 57) \<or> (65 \<le> c \<and> c \<le> 90) \<or> (97 \<le> c \<and> c \<le> 122)
      else uni c)"

section \<open>The regular expression of the empty-body check\<close>

text \<open>
  The fragment of \<open>re\<close> the script uses: a pattern is a sequence of items, each a single
  character test (a literal, \<open>\s\<close>, \<open>\w\<close>, or \<open>.\<close>, which is any code point but the line
  feed), taken once, starred or plussed, or the anchor \<open>$\<close> (the end of the string, or
  just before a line feed that ends the string). \<open>re.match\<close> anchors the pattern at the
  start of the string and succeeds when some way of matching it exists.
\<close>

datatype atom = Lit nat | Space | Word | AnyChar

datatype item = One atom | Star atom | Plus atom | EndAnchor

fun atom_ok :: "(nat \<Rightarrow> bool) \<Rightarrow> atom \<Rightarrow> nat \<Rightarrow> bool" where
  "atom_ok uni (Lit d) c = (c = d)"
| "atom_ok uni Space c = is_space c"
| "atom_ok uni Word c = is_word uni c"
| "atom_ok uni AnyChar c = (c \<noteq> 10)"

fun re_match :: "(nat \<Rightarrow> bool) \<Rightarrow> item list \<Rightarrow> ustr \<Rightarrow> bool" where
  "re_match uni [] s = True"
| "re_match uni (EndAnchor # r) s = ((s = [] \<or> s = [10]) \<and> re_match uni r s)"
| "re_match uni (One a # r) [] = False"
| "re_match uni (One a # r) (c # s) = (atom_ok uni a c \<and> re_match uni r s)"
| "re_match uni (Plus a # r) [] = False"
| "re_match uni (Plus a # r) (c # s) = (atom_ok uni a c \<and> re_match uni (Star a # r) s)"
| "re_match uni (Star a # r) [] = re_match uni r []"
| "re_match uni (Star a # r) (c # s) =
     ((atom_ok uni a c \<and> re_match uni (Star a # r) s) \<or> re_match uni r (c # s))"

text \<open>The pattern \<open>\s*func\s+\w+.*\{\s*$\<close>.\<close>

definition func_pattern :: "item list" where
  "func_pattern =
     [Star Space, One (Lit 102), One (Lit 117), One (Lit 110), One (Lit 99), Plus Space,
      Plus Word, Star AnyChar, One (Lit 123), Star Space, EndAnchor]"

section \<open>The scanner\<close>

text \<open>
  The local variables of \<open>check_swift_file\<close>: the issue list and the three counters. They
  are created by each call and start as \<open>init_state\<close>.
\<close>

record scan_state =
  issues :: "ustr list"
  brace_count :: int
  paren_count :: int
  bracket_count :: int

definition init_state :: scan_state where
  "init_state = \<lparr>issues = [], brace_count = 0, paren_count = 0, bracket_count = 0\<rparr>"

definition count :: "ustr \<Rightarrow> nat \<Rightarrow> int" where
  "count line c = int (count_list line c)"

definition marker :: ustr where
  "marker = pystr ''DispatchQueue.main.async''"

definition async_issue :: "nat \<Rightarrow> ustr" where
  "async_issue i =
     pystr ''Line '' @ str (int i) @
     pystr '': DispatchQueue.main.async might be missing opening brace''"

definition empty_body_issue :: "nat \<Rightarrow> ustr" where
  "empty_body_issue i =
     pystr ''Line '' @ str (int i) @ pystr '': Function appears to have empty body''"

text \<open>
  The body of the loop, for the line \<open>line\<close> with the 1-based number \<open>i\<close>. Python's
  \<open>lines[i]\<close> is then the line after it, and is read only where \<open>i < len(lines)\<close>.
\<close>

definition scan_line :: "(nat \<Rightarrow> bool) \<Rightarrow> ustr list \<Rightarrow> nat \<Rightarrow> ustr \<Rightarrow> scan_state \<Rightarrow> scan_state" where
  "scan_line uni lines i line st =
     (let st1 = st\<lparr>brace_count := brace_count st + (count line 123 - count line 125),
                   paren_count := paren_count st + (count line 40 - count line 41),
                   bracket_count := bracket_count st + (count line 91 - count line 93)\<rparr>;
          st2 = (if contains line marker \<and> 123 \<notin> set line \<and> i < length lines then
                   (let next_line = (if i < length lines then lines ! i else []) in
                    if 123 \<notin> set next_line
                    then st1\<lparr>issues := issues st1 @ [async_issue i]\<rparr>
                    else st1)
                 else st1)
      in if re_match uni func_pattern line then
           (if i < length lines then
              (if strip (lines ! i) = [125]
               then st2\<lparr>issues := issues st2 @ [empty_body_issue i]\<rparr>
               else st2)
            else st2)
         else st2)"

text \<open>\<open>for i, line in enumerate(lines, 1)\<close>, from the number \<open>i\<close> over the lines left.\<close>

fun scan_lines :: "(nat \<Rightarrow> bool) \<Rightarrow> ustr list \<Rightarrow> nat \<Rightarrow> ustr list \<Rightarrow> scan_state \<Rightarrow> scan_state" where
  "scan_lines uni lines i [] st = st"
| "scan_lines uni lines i (line # rest) st =
     scan_lines uni lines (i + 1) rest (scan_line uni lines i line st)"

definition brace_issue :: "int \<Rightarrow> ustr" where
  "brace_issue n = pystr ''Mismatched braces: '' @ str n @ pystr '' extra opening braces''"

definition paren_issue :: "int \<Rightarrow> ustr" where
  "paren_issue n =
     pystr ''Mismatched parentheses: '' @ str n @ pystr '' extra opening parentheses''"

definition bracket_issue :: "int \<Rightarrow> ustr" where
  "bracket_issue n =
     pystr ''Mismatched brackets: '' @ str n @ pystr '' extra opening brackets''"

text \<open>The final counts, appended to the issues of the loop.\<close>

definition final_counts :: "scan_state \<Rightarrow> ustr list" where
  "final_counts st =
     (let is1 = (if brace_count st \<noteq> 0 then issues st @ [brace_issue (brace_count st)]
                 else issues st);
          is2 = (if paren_count st \<noteq> 0 then is1 @ [paren_issue (paren_count st)] else is1)
      in if bracket_count st \<noteq> 0 then is2 @ [bracket_issue (bracket_count st)] else is2)"

text \<open>\<open>check_swift_file\<close> from the point where the text of the file has been read.\<close>

definition check_content :: "(nat \<Rightarrow> bool) \<Rightarrow> ustr \<Rightarrow> ustr list" where
  "check_content uni content =
     (let lines = split_newline content
      in final_counts (scan_lines uni lines 1 lines init_state))"

section \<open>The file system and the driver\<close>

text \<open>
  What the script sees of a path: nothing there (\<open>os.path.exists\<close> is false), something
  that \<open>open\<close> and \<open>read\<close> turn into text (decoded as UTF-8), or something on which they
  raise. The file system does not change during a run.
\<close>

datatype error = FileNotFoundError | UnicodeDecodeError | OSError

type_synonym filesystem = "ustr \<Rightarrow> (error + ustr) option"

definition exists :: "filesystem \<Rightarrow> ustr \<Rightarrow> bool" where
  "exists fs filepath \<longleftrightarrow> fs filepath \<noteq> None"

definition check_swift_file :: "(nat \<Rightarrow> bool) \<Rightarrow> filesystem \<Rightarrow> ustr \<Rightarrow> error + ustr list" where
  "check_swift_file uni fs filepath =
     (case fs filepath of
        None \<Rightarrow> Inl FileNotFoundError
      | Some (Inl e) \<Rightarrow> Inl e
      | Some (Inr content) \<Rightarrow> Inr (check_content uni content))"

definition modified_files :: "ustr list" where
  "modified_files =
     [pystr ''i18n editor/Views/TranslationEditorView.swift'',
      pystr ''i18n editor/PermissionManager.swift'',
      pystr ''i18n editor/FileSystemManager.swift'',
      pystr ''i18n editor/i18n_editorApp.swift'',
      pystr ''i18n editor/ContentView.swift'',
      pystr ''i18n editor/ProjectManager.swift'']"

text \<open>
  The loop of \<open>main\<close> over the paths left, from the lines printed so far (one string for
  each \<open>print\<close>) and the running total. An exception of \<open>check_swift_file\<close> is caught
  nowhere: it ends the loop, and the run, with what was printed before it.
\<close>

fun check_files ::
  "(nat \<Rightarrow> bool) \<Rightarrow> filesystem \<Rightarrow> ustr list \<Rightarrow> ustr list \<Rightarrow> int \<Rightarrow> ustr list \<times> (error + int)" where
  "check_files uni fs [] out total_issues = (out, Inr total_issues)"
| "check_files uni fs (filepath # rest) out total_issues =
     (if exists fs filepath then
        (let out1 = out @ [[10, 128196] @ pystr '' Checking '' @ filepath @ pystr ''...'']
         in case check_swift_file uni fs filepath of
              Inl e \<Rightarrow> (out1, Inl e)
            | Inr found \<Rightarrow>
                if found \<noteq> [] then
                  check_files uni fs rest
                    (out1 @
                     [pystr ''  '' @ [10060] @ pystr '' Found '' @ str (int (length found)) @
                      pystr '' issues:''] @
                     map (\<lambda>issue. pystr ''    '' @ [8226] @ pystr '' '' @ issue) found)
                    (total_issues + int (length found))
                else
                  check_files uni fs rest
                    (out1 @ [pystr ''  '' @ [9989] @ pystr '' No syntax issues found''])
                    total_issues)
      else
        check_files uni fs rest
          (out @ [pystr ''  '' @ [9888, 65039] @ pystr ''  File not found: '' @ filepath])
          total_issues)"

text \<open>
  \<open>main\<close>: what it printed, and the status it returned (which \<open>sys.exit\<close> makes the exit
  status of the process) or the exception that left it.
\<close>

definition main :: "(nat \<Rightarrow> bool) \<Rightarrow> filesystem \<Rightarrow> ustr list \<times> (error + int)" where
  "main uni fs =
     (case check_files uni fs modified_files
             [[128269] @ pystr '' Validating Swift code changes...''] 0 of
        (out, Inl e) \<Rightarrow> (out, Inl e)
      | (out, Inr total_issues) \<Rightarrow>
          (let out1 = out @
                 [[10, 128202] @ pystr '' Validation Summary:'',
                  pystr ''  '' @ [8226] @ pystr '' Files checked: '' @
                    str (int (length (filter (exists fs) modified_files))),
                  pystr ''  '' @ [8226] @ pystr '' Total issues: '' @ str total_issues]
           in if total_issues = 0
              then (out1 @ [pystr ''  '' @ [127881] @
                            pystr '' All files passed basic syntax validation!''], Inr 0)
              else (out1 @ [pystr ''  '' @ [9888, 65039] @
                            pystr ''  Some issues found - please review''], Inr 1)))"

text \<open>
  The last two lines of the script, \<open>sys.exit(main())\<close>: the status \<open>main\<close> returns is the
  exit status of the process; an exception that leaves \<open>main\<close> is caught by nothing, and
  the interpreter prints the traceback and ends the process with status 1.
\<close>

definition exit_status :: "error + int \<Rightarrow> int" where
  "exit_status r = (case r of Inr status \<Rightarrow> status | Inl e \<Rightarrow> 1)"

section \<open>Auxiliary functions for the proofs\<close>

text \<open>
  What one pass of the loop body appends to the issue list, and what the whole loop
  appends from the number \<open>i\<close> on; \<open>issues_scan_line\<close> and \<open>issues_scan_lines\<close> below show
  that \<open>scan_line\<close> and \<open>scan_lines\<close> append exactly these.
\<close>

definition line_issues :: "(nat \<Rightarrow> bool) \<Rightarrow> ustr list \<Rightarrow> nat \<Rightarrow> ustr \<Rightarrow> ustr list" where
  "line_issues uni lines i line =
     (if contains line marker \<and> 123 \<notin> set line \<and> i < length lines \<and> 123 \<notin> set (lines ! i)
      then [async_issue i] else []) @
     (if re_match uni func_pattern line \<and> i < length lines \<and> strip (lines ! i) = [125]
      then [empty_body_issue i] else [])"

fun heuristic_issues :: "(nat \<Rightarrow> bool) \<Rightarrow> ustr list \<Rightarrow> nat \<Rightarrow> ustr list \<Rightarrow> ustr list" where
  "heuristic_issues uni lines i [] = []"
| "heuristic_issues uni lines i (line # rest) =
     line_issues uni lines i line @ heuristic_issues uni lines (i + 1) rest"

text \<open>The issues of the final counts, for the three counter values.\<close>

definition balance_issues :: "int \<Rightarrow> int \<Rightarrow> int \<Rightarrow> ustr list" where
  "balance_issues b p k =
     (if b \<noteq> 0 then [brace_issue b] else []) @
     (if p \<noteq> 0 then [paren_issue p] else []) @
     (if k \<noteq> 0 then [bracket_issue k] else [])"

text \<open>A line issue, by the number it cites and the check that raised it.\<close>

datatype heuristic = AsyncBrace | EmptyBody

fun heuristic_issue :: "nat \<times> heuristic \<Rightarrow> ustr" where
  "heuristic_issue (i, AsyncBrace) = async_issue i"
| "heuristic_issue (i, EmptyBody) = empty_body_issue i"

text \<open>The lines \<open>main\<close> prints for one file that was read, and for one that is absent.\<close>

definition report_lines :: "ustr \<Rightarrow> ustr list \<Rightarrow> ustr list" where
  "report_lines filepath found =
     ([10, 128196] @ pystr '' Checking '' @ filepath @ pystr ''...'') #
     (if found \<noteq> [] then
        (pystr ''  '' @ [10060] @ pystr '' Found '' @ str (int (length found)) @
         pystr '' issues:'') #
        map (\<lambda>issue. pystr ''    '' @ [8226] @ pystr '' '' @ issue) found
      else [pystr ''  '' @ [9989] @ pystr '' No syntax issues found''])"

definition not_found_line :: "ustr \<Rightarrow> ustr" where
  "not_found_line filepath =
     pystr ''  '' @ [9888, 65039] @ pystr ''  File not found: '' @ filepath"

section \<open>Sample inputs\<close>

text \<open>
  A Unicode table with no alphanumeric code point beyond ASCII; on ASCII text the
  scanner does not consult the table.
\<close>

definition ascii_only :: "nat \<Rightarrow> bool" where
  "ascii_only c = False"

text \<open>
  Texts: a function signature followed by a lone closing brace; the dispatch call with no
  brace on its line or the next; one unmatched opening brace; balanced brackets.
\<close>

definition empty_func_text :: ustr where
  "empty_func_text = pystr ''func f() {'' @ [10] @ pystr ''}''"

definition dangling_async_text :: ustr where
  "dangling_async_text = pystr ''DispatchQueue.main.async'' @ [10] @ pystr ''print(1)''"

definition unbalanced_text :: ustr where
  "unbalanced_text = pystr ''f(x) {''"

definition balanced_text :: ustr where
  "balanced_text = pystr ''f(x[0]) { }''"

text \<open>
  File systems in which only \<open>ContentView.swift\<close> of the list exists: once undecodable,
  once holding the balanced text.
\<close>

definition undecodable_fs :: filesystem where
  "undecodable_fs =
     Map.empty(pystr ''i18n editor/ContentView.swift'' \<mapsto> Inl UnicodeDecodeError)"

definition clean_fs :: filesystem where
  "clean_fs = Map.empty(pystr ''i18n editor/ContentView.swift'' \<mapsto> Inr balanced_text)"

section \<open>Properties of the scanner\<close>

lemmas eval_defs = pystr_def marker_def async_issue_def empty_body_issue_def brace_issue_def
  paren_issue_def bracket_issue_def str_def str_nat.simps count_def is_space_def is_word_def
  strip_def func_pattern_def ascii_only_def

lemmas scan_defs = check_content_def scan_line_def init_state_def final_counts_def

subsection \<open>Splitting and counting\<close>

lemma split_newline_nonempty: "split_newline cs \<noteq> []"
proof (induction cs)
  case Nil
  show ?case by simp
next
  case (Cons c cs)
  then show ?case by (cases "split_newline cs") auto
qed

lemma sum_count_split:
  "c \<noteq> 10 \<Longrightarrow> (\<Sum>l\<leftarrow>split_newline cs. count l c) = count cs c"
proof (induction cs)
  case Nil
  then show ?case by (simp add: count_def)
next
  case (Cons d cs)
  then show ?case
    by (cases "split_newline cs") (auto simp: count_def)
qed

subsection \<open>The loop\<close>

lemma issues_scan_line:
  "issues (scan_line uni lines i line st) = issues st @ line_issues uni lines i line"
  by (simp add: scan_line_def line_issues_def Let_def)

lemma brace_scan_line:
  "brace_count (scan_line uni lines i line st) = brace_count st + (count line 123 - count line 125)"
  by (simp add: scan_line_def Let_def)

lemma paren_scan_line:
  "paren_count (scan_line uni lines i line st) = paren_count st + (count line 40 - count line 41)"
  by (simp add: scan_line_def Let_def)

lemma bracket_scan_line:
  "bracket_count (scan_line uni lines i line st) = bracket_count st + (count line 91 - count line 93)"
  by (simp add: scan_line_def Let_def)

lemma issues_scan_lines:
  "issues (scan_lines uni lines i rest st) = issues st @ heuristic_issues uni lines i rest"
  by (induction rest arbitrary: i st) (simp_all add: issues_scan_line)

lemma brace_scan_lines:
  "brace_count (scan_lines uni lines i rest st) =
     brace_count st + ((\<Sum>l\<leftarrow>rest. count l 123) - (\<Sum>l\<leftarrow>rest. count l 125))"
  by (induction rest arbitrary: i st) (simp_all add: brace_scan_line)

lemma paren_scan_lines:
  "paren_count (scan_lines uni lines i rest st) =
     paren_count st + ((\<Sum>l\<leftarrow>rest. count l 40) - (\<Sum>l\<leftarrow>rest. count l 41))"
  by (induction rest arbitrary: i st) (simp_all add: paren_scan_line)

lemma bracket_scan_lines:
  "bracket_count (scan_lines uni lines i rest st) =
     bracket_count st + ((\<Sum>l\<leftarrow>rest. count l 91) - (\<Sum>l\<leftarrow>rest. count l 93))"
  by (induction rest arbitrary: i st) (simp_all add: bracket_scan_line)

text \<open>
  The result of the scanner: the line issues of the loop, then the issues of the three
  final counts, each the difference of the two counts over the whole text.
\<close>

lemma check_content_eq:
  "check_content uni content =
     heuristic_issues uni (split_newline content) 1 (split_newline content) @
     balance_issues (count content 123 - count content 125)
       (count content 40 - count content 41) (count content 91 - count content 93)"
  by (simp add: check_content_def final_counts_def Let_def issues_scan_lines brace_scan_lines
      paren_scan_lines bracket_scan_lines sum_count_split init_state_def balance_issues_def)

subsection \<open>The line issues\<close>

lemma line_issues_shape:
  "\<exists>hs. line_issues uni lines i line = map heuristic_issue hs \<and>
        (\<forall>h\<in>set hs. fst h = i \<and> i < length lines)"
proof -
  let ?a = "contains line marker \<and> 123 \<notin> set line \<and> i < length lines \<and> 123 \<notin> set (lines ! i)"
  let ?b = "re_match uni func_pattern line \<and> i < length lines \<and> strip (lines ! i) = [125]"
  let ?hs = "(if ?a then [(i, AsyncBrace)] else []) @ (if ?b then [(i, EmptyBody)] else [])"
  have "line_issues uni lines i line = map heuristic_issue ?hs"
    by (simp add: line_issues_def)
  moreover have "\<forall>h\<in>set ?hs. fst h = i \<and> i < length lines"
    by auto
  ultimately show ?thesis by blast
qed

lemma heuristic_issues_shape:
  "\<exists>hs. heuristic_issues uni lines i rest = map heuristic_issue hs \<and> sorted (map fst hs) \<and>
        (\<forall>h\<in>set hs. i \<le> fst h \<and> fst h < length lines)"
proof (induction rest arbitrary: i)
  case Nil
  have "heuristic_issues uni lines i [] = map heuristic_issue []" by simp
  then show ?case by force
next
  case (Cons line rest)
  obtain hs1 where h1: "line_issues uni lines i line = map heuristic_issue hs1"
    and b1: "\<forall>h\<in>set hs1. fst h = i \<and> i < length lines"
    using line_issues_shape by blast
  obtain hs2 where h2: "heuristic_issues uni lines (i + 1) rest = map heuristic_issue hs2"
    and s2: "sorted (map fst hs2)"
    and b2: "\<forall>h\<in>set hs2. i + 1 \<le> fst h \<and> fst h < length lines"
    using Cons.IH by blast
  have s1: "sorted (map fst hs1)"
    using b1 by (induction hs1) auto
  have "heuristic_issues uni lines i (line # rest) = map heuristic_issue (hs1 @ hs2)"
    using h1 h2 by simp
  moreover have "sorted (map fst (hs1 @ hs2))"
    using s1 s2 b1 b2 by (fastforce simp: sorted_append)
  moreover have "\<forall>h\<in>set (hs1 @ hs2). i \<le> fst h \<and> fst h < length lines"
    using b1 b2 by fastforce
  ultimately show ?case by blast
qed

lemma heuristic_issues_members:
  assumes "m \<in> set (heuristic_issues uni lines i rest)"
  shows "\<exists>N. i \<le> N \<and> N < length lines \<and> (m = async_issue N \<or> m = empty_body_issue N)"
proof -
  obtain hs where eq: "heuristic_issues uni lines i rest = map heuristic_issue hs"
    and bd: "\<forall>h\<in>set hs. i \<le> fst h \<and> fst h < length lines"
    using heuristic_issues_shape by blast
  from assms eq obtain h where h: "h \<in> set hs" "m = heuristic_issue h" by auto
  obtain N a where "h = (N, a)" by (cases h)
  with h bd show ?thesis by (cases a) force+
qed

lemma async_in_heuristic_issues:
  "k < length rest \<Longrightarrow> contains (rest ! k) marker \<Longrightarrow> 123 \<notin> set (rest ! k) \<Longrightarrow>
   i + k < length lines \<Longrightarrow> 123 \<notin> set (lines ! (i + k)) \<Longrightarrow>
   async_issue (i + k) \<in> set (heuristic_issues uni lines i rest)"
proof (induction rest arbitrary: i k)
  case Nil
  then show ?case by simp
next
  case (Cons line rest)
  show ?case
  proof (cases k)
    case 0
    with Cons.prems show ?thesis by (simp add: line_issues_def)
  next
    case (Suc j)
    with Cons.prems have "async_issue (i + 1 + j) \<in> set (heuristic_issues uni lines (i + 1) rest)"
      by (intro Cons.IH) simp_all
    with Suc show ?thesis by simp
  qed
qed

lemma empty_body_in_heuristic_issues:
  "k < length rest \<Longrightarrow> re_match uni func_pattern (rest ! k) \<Longrightarrow>
   i + k < length lines \<Longrightarrow> strip (lines ! (i + k)) = [125] \<Longrightarrow>
   empty_body_issue (i + k) \<in> set (heuristic_issues uni lines i rest)"
proof (induction rest arbitrary: i k)
  case Nil
  then show ?case by simp
next
  case (Cons line rest)
  show ?case
  proof (cases k)
    case 0
    with Cons.prems show ?thesis by (simp add: line_issues_def)
  next
    case (Suc j)
    with Cons.prems have "empty_body_issue (i + 1 + j) \<in> set (heuristic_issues uni lines (i + 1) rest)"
      by (intro Cons.IH) simp_all
    with Suc show ?thesis by simp
  qed
qed

subsection \<open>Telling line issues from balance issues\<close>

lemma heuristic_not_mismatched:
  "\<not> prefix (pystr ''Mismatched'') (heuristic_issue h)"
  by (cases h rule: heuristic_issue.cases) (simp_all add: async_issue_def empty_body_issue_def pystr_def)

lemma filter_mismatched_heuristic:
  "filter (prefix (pystr ''Mismatched'')) (heuristic_issues uni lines i rest) = []"
proof -
  obtain hs where "heuristic_issues uni lines i rest = map heuristic_issue hs"
    using heuristic_issues_shape by blast
  then show ?thesis by (simp add: filter_empty_conv heuristic_not_mismatched)
qed

lemma mismatched_balance:
  "prefix (pystr ''Mismatched'') (brace_issue n)"
  "prefix (pystr ''Mismatched'') (paren_issue n)"
  "prefix (pystr ''Mismatched'') (bracket_issue n)"
  by (simp_all add: brace_issue_def paren_issue_def bracket_issue_def pystr_def)

lemma filter_mismatched_balance:
  "filter (prefix (pystr ''Mismatched'')) (balance_issues b p k) = balance_issues b p k"
  by (simp add: balance_issues_def mismatched_balance)

section \<open>Properties of the driver\<close>

lemma check_files_absent:
  "fs p = None \<Longrightarrow>
   check_files uni fs (p # rest) out t = check_files uni fs rest (out @ [not_found_line p]) t"
  by (simp add: exists_def not_found_line_def)

lemma check_files_error:
  "fs p = Some (Inl e) \<Longrightarrow>
   check_files uni fs (p # rest) out t =
     (out @ [[10, 128196] @ pystr '' Checking '' @ p @ pystr ''...''], Inl e)"
  by (simp add: exists_def check_swift_file_def)

lemma check_files_text:
  "fs p = Some (Inr content) \<Longrightarrow>
   check_files uni fs (p # rest) out t =
     check_files uni fs rest (out @ report_lines p (check_content uni content))
       (t + int (length (check_content uni content)))"
  by (simp add: exists_def check_swift_file_def report_lines_def)

lemma snd_check_files_readable:
  "\<forall>p\<in>set ps. \<forall>e. fs p \<noteq> Some (Inl e) \<Longrightarrow>
   snd (check_files uni fs ps out t) =
     Inr (t + (\<Sum>p\<leftarrow>ps. case fs p of
                           Some (Inr content) \<Rightarrow> int (length (check_content uni content))
                         | _ \<Rightarrow> 0))"
proof (induction ps arbitrary: out t)
  case Nil
  show ?case by simp
next
  case (Cons p ps)
  show ?case
  proof (cases "fs p")
    case None
    then show ?thesis using Cons by (simp add: check_files_absent del: check_files.simps)
  next
    case (Some r)
    then show ?thesis
    proof (cases r)
      case (Inl e)
      with Some Cons.prems show ?thesis by simp
    next
      case (Inr content)
      with Some show ?thesis using Cons by (simp add: check_files_text del: check_files.simps)
    qed
  qed
qed

lemma snd_check_files_unreadable:
  "q \<in> set ps \<Longrightarrow> fs q = Some (Inl e) \<Longrightarrow> \<exists>e'. snd (check_files uni fs ps out t) = Inl e'"
proof (induction ps arbitrary: out t)
  case Nil
  then show ?case by simp
next
  case (Cons p ps)
  show ?case
  proof (cases "fs p")
    case None
    with Cons.prems have "q \<in> set ps" by auto
    with None Cons show ?thesis by (simp add: check_files_absent del: check_files.simps)
  next
    case (Some r)
    then show ?thesis
    proof (cases r)
      case (Inl e1)
      with Some show ?thesis by (simp add: check_files_error del: check_files.simps)
    next
      case (Inr content)
      with Some Cons.prems have "q \<in> set ps" by auto
      with Some Inr Cons show ?thesis by (simp add: check_files_text del: check_files.simps)
    qed
  qed
qed

lemma snd_main:
  "snd (main uni fs) =
     (case snd (check_files uni fs modified_files
                  [[128269] @ pystr '' Validating Swift code changes...''] 0) of
        Inl e \<Rightarrow> Inl e
      | Inr n \<Rightarrow> Inr (if n = 0 then 0 else 1))"
  by (simp add: main_def Let_def split: prod.splits sum.splits)

lemma check_files_all_absent:
  "\<forall>p\<in>set ps. fs p = None \<Longrightarrow>
   check_files uni fs ps out t = (out @ map not_found_line ps, Inr t)"
  by (induction ps arbitrary: out) (simp_all add: check_files_absent del: check_files.simps(2))

section \<open>The claims\<close>

text \<open>
  C1, as the code has it. In every run in which each listed file that exists is read
  without an exception, the loop accumulates as total the sum of the issue counts of the
  files that exist (an absent file adds nothing), \<open>main\<close> returns 0 if that total is 0 and
  1 otherwise, and that is the exit status of the process.
\<close>

theorem exit_status_from_total:
  assumes "\<forall>p\<in>set modified_files. \<forall>e. fs p \<noteq> Some (Inl e)"
  shows "snd (check_files uni fs modified_files out 0) =
           Inr (\<Sum>p\<leftarrow>modified_files.
                  case fs p of
                    Some (Inr content) \<Rightarrow> int (length (check_content uni content))
                  | _ \<Rightarrow> 0) \<and>
         snd (main uni fs) =
           Inr (if (\<Sum>p\<leftarrow>modified_files.
                      case fs p of
                        Some (Inr content) \<Rightarrow> int (length (check_content uni content))
                      | _ \<Rightarrow> 0) = 0
                then 0 else 1) \<and>
         exit_status (snd (main uni fs)) =
           (if (\<Sum>p\<leftarrow>modified_files.
                  case fs p of
                    Some (Inr content) \<Rightarrow> int (length (check_content uni content))
                  | _ \<Rightarrow> 0) = 0
            then 0 else 1)"
  using snd_check_files_readable [OF assms, of uni _ 0]
  by (simp add: snd_main exit_status_def)

text \<open>
  At the file system whose only listed file is free of issues, five files are absent and
  the status is 0.
\<close>

theorem exit_status_from_total_witness:
  "map clean_fs modified_files = [None, None, None, None, Some (Inr balanced_text), None] \<and>
   check_content ascii_only balanced_text = [] \<and>
   snd (main ascii_only clean_fs) = Inr 0 \<and>
   exit_status (snd (main ascii_only clean_fs)) = 0"
proof -
  have r: "\<forall>p\<in>set modified_files. \<forall>e. clean_fs p \<noteq> Some (Inl e)"
    by (simp add: clean_fs_def)
  have a: "map clean_fs modified_files = [None, None, None, None, Some (Inr balanced_text), None]"
    by (simp add: modified_files_def clean_fs_def pystr_def)
  have c: "check_content ascii_only balanced_text = []"
    by (simp add: balanced_text_def eval_defs scan_defs)
  have s: "(\<Sum>p\<leftarrow>modified_files.
              case clean_fs p of
                Some (Inr content) \<Rightarrow> int (length (check_content ascii_only content))
              | _ \<Rightarrow> 0) = 0"
    by (simp add: modified_files_def clean_fs_def c pystr_def)
  have "snd (main ascii_only clean_fs) = Inr 0 \<and>
      exit_status (snd (main ascii_only clean_fs)) = 0"
    using exit_status_from_total [OF r, of ascii_only "[]", THEN conjunct2]
    by (simp add: s exit_status_def)
  with a c show ?thesis by blast
qed

text \<open>
  C1 as stated fails in a run ended by an exception: with the undecodable file the only
  one that exists, the four files before it are absent and leave the total at 0, no file
  contributes an issue, and the exit status of the process is 1.
\<close>

theorem exit_status_uncaught_counterexample:
  "map undecodable_fs modified_files =
     [None, None, None, None, Some (Inl UnicodeDecodeError), None] \<and>
   check_files ascii_only undecodable_fs (take 4 modified_files) [] 0 =
     (map (\<lambda>p. pystr ''  '' @ [9888, 65039] @ pystr ''  File not found: '' @ p)
        (take 4 modified_files), Inr 0) \<and>
   (\<Sum>p\<leftarrow>modified_files.
      case undecodable_fs p of
        Some (Inr content) \<Rightarrow> int (length (check_content ascii_only content))
      | _ \<Rightarrow> 0) = 0 \<and>
   snd (main ascii_only undecodable_fs) = Inl UnicodeDecodeError \<and>
   exit_status (snd (main ascii_only undecodable_fs)) = 1"
  by (simp add: main_def modified_files_def undecodable_fs_def exists_def check_swift_file_def
      exit_status_def pystr_def)

text \<open>
  C2, as the code has it. An absent file is handled in the loop: one "File not found"
  line, the total unchanged, and the loop goes on. An exception raised while reading a
  file that exists is caught nowhere: the loop ends there, after the "Checking" line of
  that file, and \<open>main\<close> is left by the exception instead of returning a status.
\<close>

theorem read_error_ends_run:
  "(fs p = None \<longrightarrow>
      check_files uni fs (p # rest) out t =
        check_files uni fs rest
          (out @ [pystr ''  '' @ [9888, 65039] @ pystr ''  File not found: '' @ p]) t) \<and>
   (fs q = Some (Inl e) \<longrightarrow>
      check_files uni fs (q # rest) out t =
        (out @ [[10, 128196] @ pystr '' Checking '' @ q @ pystr ''...''], Inl e) \<and>
      (q \<in> set modified_files \<longrightarrow> (\<exists>e'. snd (main uni fs) = Inl e')))"
proof -
  have "\<exists>e'. snd (main uni fs) = Inl e'" if h1: "fs q = Some (Inl e)" and h2: "q \<in> set modified_files"
  proof -
    obtain e' where "snd (check_files uni fs modified_files
        [[128269] @ pystr '' Validating Swift code changes...''] 0) = Inl e'"
      using snd_check_files_unreadable [of q modified_files fs e uni] h1 h2 by blast
    then show ?thesis by (simp add: snd_main)
  qed
  then show ?thesis
    using check_files_absent [of fs p] check_files_error [of fs q e]
    by (simp add: not_found_line_def del: check_files.simps)
qed

text \<open>At the file system in which \<open>ContentView.swift\<close> exists and cannot be decoded.\<close>

theorem read_error_ends_run_witness:
  "undecodable_fs (pystr ''i18n editor/ProjectManager.swift'') = None \<and>
   undecodable_fs (pystr ''i18n editor/ContentView.swift'') = Some (Inl UnicodeDecodeError) \<and>
   pystr ''i18n editor/ContentView.swift'' \<in> set modified_files \<and>
   check_files ascii_only undecodable_fs [pystr ''i18n editor/ProjectManager.swift''] [] 0 =
     ([pystr ''  '' @ [9888, 65039] @
       pystr ''  File not found: i18n editor/ProjectManager.swift''], Inr 0) \<and>
   check_files ascii_only undecodable_fs [pystr ''i18n editor/ContentView.swift''] [] 0 =
     ([[10, 128196] @ pystr '' Checking i18n editor/ContentView.swift...''],
      Inl UnicodeDecodeError) \<and>
   (\<exists>e'. snd (main ascii_only undecodable_fs) = Inl e')"
proof -
  have a: "undecodable_fs (pystr ''i18n editor/ProjectManager.swift'') = None"
    by (simp add: undecodable_fs_def pystr_def)
  have b: "undecodable_fs (pystr ''i18n editor/ContentView.swift'') = Some (Inl UnicodeDecodeError)"
    by (simp add: undecodable_fs_def)
  have c: "pystr ''i18n editor/ContentView.swift'' \<in> set modified_files"
    by (simp add: modified_files_def)
  from read_error_ends_run [of undecodable_fs "pystr ''i18n editor/ProjectManager.swift''"
      ascii_only "[]" "[]" 0 "pystr ''i18n editor/ContentView.swift''" UnicodeDecodeError]
    a b c
  show ?thesis by (simp add: pystr_def del: check_files.simps(2))
qed

text \<open>
  C2 as stated fails there: the undecodable file of the list ends the run with the
  decoding error, with no report line for the error and no summary.
\<close>

theorem read_error_uncaught_counterexample:
  "exists undecodable_fs (pystr ''i18n editor/ContentView.swift'') \<and>
   pystr ''i18n editor/ContentView.swift'' \<in> set modified_files \<and>
   main ascii_only undecodable_fs =
     ([[128269] @ pystr '' Validating Swift code changes...'',
       pystr ''  '' @ [9888, 65039] @
       pystr ''  File not found: i18n editor/Views/TranslationEditorView.swift'',
       pystr ''  '' @ [9888, 65039] @
       pystr ''  File not found: i18n editor/PermissionManager.swift'',
       pystr ''  '' @ [9888, 65039] @
       pystr ''  File not found: i18n editor/FileSystemManager.swift'',
       pystr ''  '' @ [9888, 65039] @
       pystr ''  File not found: i18n editor/i18n_editorApp.swift'',
       [10, 128196] @ pystr '' Checking i18n editor/ContentView.swift...''],
      Inl UnicodeDecodeError)"
  by (simp add: main_def modified_files_def undecodable_fs_def exists_def check_swift_file_def
      pystr_def)

text \<open>
  C3, as the code has it. If a line matches the pattern and the next line exists and is
  a lone closing brace between whitespace, the issue "Line N: Function appears to have
  empty body" is emitted with N the 1-based number of the matching line, that is, of
  the signature and not of the closing brace. Here \<open>k\<close> is the 0-based index of the
  matching line.
\<close>

theorem empty_body_reported_at_signature_line:
  assumes "k + 1 < length (split_newline content)"
    and "re_match uni func_pattern (split_newline content ! k)"
    and "strip (split_newline content ! (k + 1)) = pystr ''}''"
  shows "pystr ''Line '' @ str (int (k + 1)) @ pystr '': Function appears to have empty body''
         \<in> set (check_content uni content)"
proof -
  have "empty_body_issue (1 + k) \<in>
          set (heuristic_issues uni (split_newline content) 1 (split_newline content))"
    using assms by (intro empty_body_in_heuristic_issues) (simp_all add: pystr_def)
  then show ?thesis
    by (simp add: check_content_eq empty_body_issue_def)
qed

text \<open>At the two-line text \<open>func f() {\<close>, \<open>}\<close>.\<close>

theorem empty_body_reported_at_signature_line_witness:
  "0 + 1 < length (split_newline empty_func_text) \<and>
   re_match ascii_only func_pattern (split_newline empty_func_text ! 0) \<and>
   strip (split_newline empty_func_text ! (0 + 1)) = pystr ''}'' \<and>
   pystr ''Line 1: Function appears to have empty body''
     \<in> set (check_content ascii_only empty_func_text)"
  using empty_body_reported_at_signature_line [of 0 empty_func_text ascii_only]
  by (simp add: empty_func_text_def eval_defs)

text \<open>
  C3 as stated fails there: line 1 matches, line 2 is the closing brace, the only issue
  cites line 1, and no issue cites line 2.
\<close>

theorem empty_body_closing_line_counterexample:
  "re_match ascii_only func_pattern (split_newline empty_func_text ! 0) \<and>
   strip (split_newline empty_func_text ! 1) = pystr ''}'' \<and>
   check_content ascii_only empty_func_text =
     [pystr ''Line 1: Function appears to have empty body''] \<and>
   pystr ''Line 2: Function appears to have empty body''
     \<notin> set (check_content ascii_only empty_func_text)"
  by (simp add: empty_func_text_def eval_defs check_content_def scan_line_def init_state_def
      final_counts_def)

text \<open>
  C4. If a line contains \<open>DispatchQueue.main.async\<close> and no opening brace, and the next
  line exists and contains no opening brace, the issue "Line N: DispatchQueue.main.async
  might be missing opening brace" is emitted with N the 1-based number of the first of
  the two lines. Here \<open>k\<close> is its 0-based index.
\<close>

theorem async_missing_brace_reported:
  assumes "k + 1 < length (split_newline content)"
    and "contains (split_newline content ! k) (pystr ''DispatchQueue.main.async'')"
    and "123 \<notin> set (split_newline content ! k)"
    and "123 \<notin> set (split_newline content ! (k + 1))"
  shows "pystr ''Line '' @ str (int (k + 1)) @
           pystr '': DispatchQueue.main.async might be missing opening brace''
         \<in> set (check_content uni content)"
proof -
  have "async_issue (1 + k) \<in>
          set (heuristic_issues uni (split_newline content) 1 (split_newline content))"
    using assms by (intro async_in_heuristic_issues) (simp_all add: marker_def)
  then show ?thesis
    by (simp add: check_content_eq async_issue_def)
qed

text \<open>At the two-line text \<open>DispatchQueue.main.async\<close>, \<open>print(1)\<close>.\<close>

theorem async_missing_brace_reported_witness:
  "0 + 1 < length (split_newline dangling_async_text) \<and>
   contains (split_newline dangling_async_text ! 0) (pystr ''DispatchQueue.main.async'') \<and>
   123 \<notin> set (split_newline dangling_async_text ! 0) \<and>
   123 \<notin> set (split_newline dangling_async_text ! (0 + 1)) \<and>
   pystr ''Line 1: DispatchQueue.main.async might be missing opening brace''
     \<in> set (check_content ascii_only dangling_async_text)"
  using async_missing_brace_reported [of 0 dangling_async_text ascii_only]
  by (simp add: dangling_async_text_def eval_defs)

text \<open>
  C5. The issues that begin with "Mismatched" are exactly: one for the braces if their
  counter is not 0, then one for the parentheses, then one for the brackets, each naming
  its kind and the value of its counter as a number of "extra opening" ones. With one
  opening brace more than closing braces, the issue "Mismatched braces: 1 extra opening
  braces" is emitted. A negative counter is reported in the same words: for the text
  \<open>}\<close> the issue is "Mismatched braces: -1 extra opening braces".
\<close>

theorem balance_issues_reported:
  "filter (prefix (pystr ''Mismatched'')) (check_content uni content) =
     (if count content 123 - count content 125 \<noteq> 0
      then [pystr ''Mismatched braces: '' @ str (count content 123 - count content 125) @
            pystr '' extra opening braces''] else []) @
     (if count content 40 - count content 41 \<noteq> 0
      then [pystr ''Mismatched parentheses: '' @ str (count content 40 - count content 41) @
            pystr '' extra opening parentheses''] else []) @
     (if count content 91 - count content 93 \<noteq> 0
      then [pystr ''Mismatched brackets: '' @ str (count content 91 - count content 93) @
            pystr '' extra opening brackets''] else []) \<and>
   (count content 123 = count content 125 + 1 \<longrightarrow>
      pystr ''Mismatched braces: 1 extra opening braces'' \<in> set (check_content uni content)) \<and>
   check_content uni (pystr ''}'') = [pystr ''Mismatched braces: -1 extra opening braces'']"
proof -
  have f: "filter (prefix (pystr ''Mismatched'')) (check_content uni content) =
      balance_issues (count content 123 - count content 125)
        (count content 40 - count content 41) (count content 91 - count content 93)"
    by (simp add: check_content_eq filter_mismatched_heuristic filter_mismatched_balance)
  have one: "brace_issue 1 = pystr ''Mismatched braces: 1 extra opening braces''"
    by (simp add: brace_issue_def str_def str_nat.simps pystr_def)
  have "count content 123 = count content 125 + 1 \<Longrightarrow>
      pystr ''Mismatched braces: 1 extra opening braces'' \<in> set (check_content uni content)"
    using one by (simp add: check_content_eq balance_issues_def)
  moreover have "check_content uni (pystr ''}'') =
      [pystr ''Mismatched braces: -1 extra opening braces'']"
    by (simp add: check_content_def scan_line_def init_state_def final_counts_def pystr_def
        marker_def brace_issue_def str_def str_nat.simps count_def is_space_def func_pattern_def)
  ultimately show ?thesis
    using f by (simp add: balance_issues_def brace_issue_def paren_issue_def bracket_issue_def)
qed

text \<open>At the text \<open>f(x) {\<close>.\<close>

theorem balance_issues_reported_witness:
  "count unbalanced_text 123 = count unbalanced_text 125 + 1 \<and>
   pystr ''Mismatched braces: 1 extra opening braces''
     \<in> set (check_content ascii_only unbalanced_text)"
proof -
  have a: "count unbalanced_text 123 = count unbalanced_text 125 + 1"
    by (simp add: unbalanced_text_def count_def pystr_def)
  with balance_issues_reported [of ascii_only unbalanced_text] show ?thesis by blast
qed

text \<open>
  C6. If the text has as many opening as closing braces, parentheses and brackets, no
  emitted issue begins with "Mismatched": none is one of the three balance issues,
  whatever the number in it.
\<close>

theorem balanced_no_balance_issue:
  assumes "count content 123 = count content 125"
    and "count content 40 = count content 41"
    and "count content 91 = count content 93"
  shows "\<forall>m\<in>set (check_content uni content).
           \<not> prefix (pystr ''Mismatched'') m \<and>
           (\<forall>n. m \<noteq> brace_issue n \<and> m \<noteq> paren_issue n \<and> m \<noteq> bracket_issue n)"
proof
  fix m
  assume "m \<in> set (check_content uni content)"
  with assms have "m \<in> set (heuristic_issues uni (split_newline content) 1 (split_newline content))"
    by (simp add: check_content_eq balance_issues_def)
  then obtain N where "m = async_issue N \<or> m = empty_body_issue N"
    using heuristic_issues_members by blast
  then have "\<not> prefix (pystr ''Mismatched'') m"
    by (auto simp: async_issue_def empty_body_issue_def pystr_def)
  then show "\<not> prefix (pystr ''Mismatched'') m \<and>
      (\<forall>n. m \<noteq> brace_issue n \<and> m \<noteq> paren_issue n \<and> m \<noteq> bracket_issue n)"
    using mismatched_balance by metis
qed

text \<open>At the text \<open>func f() {\<close>, \<open>}\<close>, which is balanced and has one issue.\<close>

theorem balanced_no_balance_issue_witness:
  "count empty_func_text 123 = count empty_func_text 125 \<and>
   count empty_func_text 40 = count empty_func_text 41 \<and>
   count empty_func_text 91 = count empty_func_text 93 \<and>
   check_content ascii_only empty_func_text =
     [pystr ''Line 1: Function appears to have empty body''] \<and>
   \<not> prefix (pystr ''Mismatched'') (pystr ''Line 1: Function appears to have empty body'') \<and>
   (\<forall>n. pystr ''Line 1: Function appears to have empty body'' \<noteq> brace_issue n \<and>
        pystr ''Line 1: Function appears to have empty body'' \<noteq> paren_issue n \<and>
        pystr ''Line 1: Function appears to have empty body'' \<noteq> bracket_issue n)"
proof -
  have a: "count empty_func_text 123 = count empty_func_text 125"
    and b: "count empty_func_text 40 = count empty_func_text 41"
    and c: "count empty_func_text 91 = count empty_func_text 93"
    by (simp_all add: empty_func_text_def count_def pystr_def)
  have d: "check_content ascii_only empty_func_text =
      [pystr ''Line 1: Function appears to have empty body'']"
    by (simp add: empty_func_text_def eval_defs scan_defs)
  from balanced_no_balance_issue [OF a b c, of ascii_only] a b c d show ?thesis by simp
qed

text \<open>
  C7. If no path of the list exists, \<open>main\<close> prints the banner, one "File not found" line
  for each path, and the summary with "Files checked: 0" and "Total issues: 0", and
  returns 0.
\<close>

theorem all_files_absent:
  assumes "\<forall>p\<in>set modified_files. fs p = None"
  shows "main uni fs =
           ([[128269] @ pystr '' Validating Swift code changes...''] @
            map (\<lambda>p. pystr ''  '' @ [9888, 65039] @ pystr ''  File not found: '' @ p)
              modified_files @
            [[10, 128202] @ pystr '' Validation Summary:'',
             pystr ''  '' @ [8226] @ pystr '' Files checked: 0'',
             pystr ''  '' @ [8226] @ pystr '' Total issues: 0'',
             pystr ''  '' @ [127881] @ pystr '' All files passed basic syntax validation!''],
            Inr 0)"
proof -
  have "filter (exists fs) modified_files = []"
    using assms by (simp add: filter_empty_conv exists_def)
  moreover have "map not_found_line modified_files =
      map (\<lambda>p. pystr ''  '' @ [9888, 65039] @ pystr ''  File not found: '' @ p) modified_files"
    by (simp add: not_found_line_def)
  ultimately show ?thesis
    using check_files_all_absent [OF assms, of uni]
    by (simp add: main_def str_def str_nat.simps pystr_def)
qed

text \<open>At the empty file system.\<close>

theorem all_files_absent_witness:
  "map (Map.empty :: filesystem) modified_files = [None, None, None, None, None, None] \<and>
   snd (main ascii_only Map.empty) = Inr 0 \<and>
   pystr ''  '' @ [8226] @ pystr '' Files checked: 0'' \<in> set (fst (main ascii_only Map.empty)) \<and>
   pystr ''  '' @ [8226] @ pystr '' Total issues: 0'' \<in> set (fst (main ascii_only Map.empty))"
proof -
  have a: "\<forall>p\<in>set modified_files. Map.empty p = (None :: (error + ustr) option)"
    by simp
  have "map (Map.empty :: filesystem) modified_files = [None, None, None, None, None, None]"
    by (simp add: modified_files_def)
  then show ?thesis
    using all_files_absent [OF a, of ascii_only] by simp
qed

text \<open>
  C9. Every emitted issue that is not a balance issue is "Line N: ..." for one of the two
  line checks, with N at least 1 and at most the number of lines minus 1.
\<close>

theorem line_numbers_in_range:
  assumes "m \<in> set (check_content uni content)"
    and "\<not> prefix (pystr ''Mismatched'') m"
  shows "\<exists>N. 1 \<le> N \<and> N \<le> length (split_newline content) - 1 \<and>
           (m = pystr ''Line '' @ str (int N) @
                pystr '': DispatchQueue.main.async might be missing opening brace'' \<or>
            m = pystr ''Line '' @ str (int N) @ pystr '': Function appears to have empty body'')"
proof -
  from assms have "m \<in> set (heuristic_issues uni (split_newline content) 1 (split_newline content))"
    by (auto simp: check_content_eq balance_issues_def mismatched_balance split: if_splits)
  from heuristic_issues_members [OF this] show ?thesis
    by (fastforce simp: async_issue_def empty_body_issue_def)
qed

text \<open>At the text \<open>func f() {\<close>, \<open>}\<close>, for its issue at line 1.\<close>

theorem line_numbers_in_range_witness:
  "pystr ''Line 1: Function appears to have empty body''
     \<in> set (check_content ascii_only empty_func_text) \<and>
   \<not> prefix (pystr ''Mismatched'') (pystr ''Line 1: Function appears to have empty body'') \<and>
   (\<exists>N. 1 \<le> N \<and> N \<le> length (split_newline empty_func_text) - 1 \<and>
      (pystr ''Line 1: Function appears to have empty body'' =
         pystr ''Line '' @ str (int N) @
         pystr '': DispatchQueue.main.async might be missing opening brace'' \<or>
       pystr ''Line 1: Function appears to have empty body'' =
         pystr ''Line '' @ str (int N) @ pystr '': Function appears to have empty body''))"
proof -
  have m: "pystr ''Line 1: Function appears to have empty body''
             \<in> set (check_content ascii_only empty_func_text)"
    by (simp add: empty_func_text_def eval_defs check_content_def scan_line_def init_state_def
        final_counts_def)
  have n: "\<not> prefix (pystr ''Mismatched'') (pystr ''Line 1: Function appears to have empty body'')"
    by (simp add: pystr_def)
  from line_numbers_in_range [OF m n] m n show ?thesis by blast
qed

text \<open>
  C10. The issue sequence is the line issues, in nondecreasing order of the line number
  they cite, followed by the balance issues in the order braces, parentheses, brackets,
  at most one of each kind.
\<close>

theorem issues_ordered:
  "\<exists>hs. sorted (map fst hs) \<and>
     check_content uni content =
       map heuristic_issue hs @
       (if count content 123 - count content 125 \<noteq> 0
        then [brace_issue (count content 123 - count content 125)] else []) @
       (if count content 40 - count content 41 \<noteq> 0
        then [paren_issue (count content 40 - count content 41)] else []) @
       (if count content 91 - count content 93 \<noteq> 0
        then [bracket_issue (count content 91 - count content 93)] else [])"
proof -
  obtain hs where "heuristic_issues uni (split_newline content) 1 (split_newline content) =
      map heuristic_issue hs" and "sorted (map fst hs)"
    using heuristic_issues_shape by blast
  then show ?thesis
    by (auto simp: check_content_eq balance_issues_def)
qed

end
